theory Spec2Isabelle
  imports Main "HOL-Library.Char_ord" "HOL-Library.List_Lexorder" "HOL-Library.Multiset"
begin

section \<open>The STUNner cluster object (internal/object/cluster.go)\<close>

text \<open>
  A Cluster is the access-control entity of the gateway: a named set of permitted peer
  endpoints, given either as static subnets or as DNS domains resolved by a shared resolver.
  The model follows \<^verbatim>\<open>cluster.go\<close> function by function. Mutation of the receiver
  \<^verbatim>\<open>c *Cluster\<close> is explicit state passing; the calls a function makes on the resolver are
  returned as a list, in the order the code makes them. A function that can panic (a method
  call on a nil resolver or on a nil logger) returns an option, \<open>None\<close> for the panic. What a
  logger prints is left out; that a logger is nil is not.
\<close>

subsection \<open>The Go standard library \<^verbatim>\<open>net\<close>, as a parameter\<close>

text \<open>
  \<^verbatim>\<open>net.ParseCIDR\<close>, \<^verbatim>\<open>net.ParseIP\<close>, \<^verbatim>\<open>IP.To4\<close>, \<^verbatim>\<open>IPNet.Contains\<close>, \<^verbatim>\<open>IP.Equal\<close> and
  \<^verbatim>\<open>IPNet.String\<close> belong to Go's standard library. \<^verbatim>\<open>cluster.go\<close> only calls them, so
  they are a parameter of every function below: \<open>'ip\<close> stands for \<^verbatim>\<open>net.IP\<close> and \<open>'net\<close> for
  \<^verbatim>\<open>net.IPNet\<close>. \<^verbatim>\<open>ParseCIDR\<close> returns \<open>None\<close> where Go returns a non-nil error (the code
  ignores the first result), \<^verbatim>\<open>ParseIP\<close> and \<^verbatim>\<open>To4\<close> return \<open>None\<close> where Go returns nil.
\<close>

record ('ip, 'net) net_pkg =
  ParseCIDR :: "string \<Rightarrow> 'net option"
  ParseIP :: "string \<Rightarrow> 'ip option"
  To4 :: "'ip \<Rightarrow> 'ip option"
  Contains :: "'net \<Rightarrow> 'ip \<Rightarrow> bool"
  Equal :: "'ip \<Rightarrow> 'ip \<Rightarrow> bool"
  IPNet_String :: "'net \<Rightarrow> string"

subsection \<open>Errors, cluster types and configurations\<close>

datatype error =
  ErrInvalidConf
  | ErrRestartRequired
  | ErrMissingName
  | ErrUnknownClusterType
  | ErrNoResolver
  | ErrRegister
  | ErrLookup

text \<open>
  Modelled from the spec: \<^verbatim>\<open>v1alpha1.ClusterType\<close> is declared outside the sources. The spec
  gives it the two values STATIC and STRICT_DNS; \<open>ClusterTypeUnknown\<close> stands for every other
  value (the result for an unrecognized literal, and the type of a zero-value Cluster), which
  the \<^verbatim>\<open>switch\<close> statements of \<^verbatim>\<open>cluster.go\<close> skip.
\<close>

datatype ClusterType = ClusterTypeStatic | ClusterTypeStrictDNS | ClusterTypeUnknown

text \<open>
  Modelled from the spec: \<^verbatim>\<open>v1alpha1.NewClusterType\<close> is declared outside the sources. The
  configuration shape of the spec is \<^verbatim>\<open>type: "STATIC"|"STRICT_DNS"\<close>; any other literal
  is unrecognized.
\<close>

definition NewClusterType :: "string \<Rightarrow> ClusterType \<times> error option" where
  "NewClusterType t =
     (if t = ''STATIC'' then (ClusterTypeStatic, None)
      else if t = ''STRICT_DNS'' then (ClusterTypeStrictDNS, None)
      else (ClusterTypeUnknown, Some ErrUnknownClusterType))"

text \<open>
  Modelled from the spec: \<^verbatim>\<open>ClusterType.String\<close> is declared outside the sources. It gives
  the literal of the type back; the text for any other value has no part in what follows.
\<close>

definition ClusterType_String :: "ClusterType \<Rightarrow> string" where
  "ClusterType_String t =
     (case t of ClusterTypeStatic \<Rightarrow> ''STATIC''
      | ClusterTypeStrictDNS \<Rightarrow> ''STRICT_DNS''
      | ClusterTypeUnknown \<Rightarrow> ''<unknown>'')"

text \<open>
  \<^verbatim>\<open>v1alpha1.ClusterConfig\<close>: \<^verbatim>\<open>{ name, type, endpoints }\<close>. A \<^verbatim>\<open>v1alpha1.Config\<close> is an
  interface value: either a cluster configuration or something else (the configuration of
  another object kind, or nil), for which the type assertion
  \<^verbatim>\<open>conf.(*v1alpha1.ClusterConfig)\<close> fails.
\<close>

record ClusterConfig =
  conf_Name :: string
  conf_Type :: string
  conf_Endpoints :: "string list"

datatype Config = ClusterConf ClusterConfig | OtherConf

text \<open>
  Modelled from the spec: \<^verbatim>\<open>ClusterConfig.Validate\<close> is declared outside the sources. The
  spec has it check the configuration structurally: a non-empty name and a recognized type
  literal.
\<close>

definition Validate :: "ClusterConfig \<Rightarrow> error option" where
  "Validate req =
     (if conf_Name req = [] then Some ErrMissingName
      else snd (NewClusterType (conf_Type req)))"

subsection \<open>The resolver\<close>

text \<open>
  Modelled from the spec: \<^verbatim>\<open>resolver.DnsResolver\<close> is an interface declared outside the
  sources, and the spec gives its contract only. \<open>Register d\<close> is the error \<^verbatim>\<open>Register(d)\<close>
  returns (\<open>None\<close> for nil): the spec makes it an error for structurally invalid names, so it
  depends on the name alone. \<open>Lookup d\<close> is the pair \<^verbatim>\<open>(addresses, error)\<close> that
  \<^verbatim>\<open>Lookup(d)\<close> returns at the time of the call. \<^verbatim>\<open>Unregister(d)\<close> returns nothing. A nil
  resolver is \<open>None\<close> in the Cluster.
\<close>

record 'ip DnsResolver =
  Register :: "string \<Rightarrow> error option"
  Lookup :: "string \<Rightarrow> 'ip list \<times> error option"

text \<open>The calls a Cluster makes on its resolver; a Register call carries its result.\<close>

datatype resolver_call = RegisterCall string "error option" | UnregisterCall string

text \<open>
  Modelled from the spec: the effect of the calls on the set of domains the resolver tracks
  for the caller. Register begins tracking a domain and is idempotent, a failed Register
  changes nothing, and Unregister stops tracking and is a no-op for an unknown domain.
\<close>

fun registered_after :: "resolver_call list \<Rightarrow> string set \<Rightarrow> string set" where
  "registered_after [] S = S"
| "registered_after (RegisterCall d None # cs) S = registered_after cs (insert d S)"
| "registered_after (RegisterCall d (Some e) # cs) S = registered_after cs S"
| "registered_after (UnregisterCall d # cs) S = registered_after cs (S - {d})"

subsection \<open>The loggers\<close>

text \<open>
  \<^verbatim>\<open>logging.LoggerFactory\<close> and \<^verbatim>\<open>logging.LeveledLogger\<close> are interfaces of the pion
  logging library. The model keeps of a logger its scope and whether it is nil (\<open>None\<close>):
  \<^verbatim>\<open>Tracef\<close>, \<^verbatim>\<open>Trace\<close>, \<^verbatim>\<open>Infof\<close> and \<^verbatim>\<open>Warnf\<close> on a logger that is not nil
  return and change nothing, and on a nil logger they panic.
\<close>

datatype LoggerFactory = LoggerFactory

datatype LeveledLogger = LeveledLogger string

definition NewLogger :: "LoggerFactory \<Rightarrow> string \<Rightarrow> LeveledLogger" where
  "NewLogger f scope = LeveledLogger scope"

subsection \<open>The Cluster\<close>

record ('ip, 'net) Cluster =
  Name :: string
  Type :: ClusterType
  Endpoints :: "'net list"
  Domains :: "string list"
  Resolver :: "'ip DnsResolver option"
  logger :: "LoggerFactory option"
  log :: "LeveledLogger option"

subsection \<open>Route\<close>

text \<open>
  The loop of the STATIC case: it returns true at the first endpoint that contains the peer.
\<close>

fun route_endpoints :: "('ip, 'net) net_pkg \<Rightarrow> 'net list \<Rightarrow> 'ip \<Rightarrow> bool" where
  "route_endpoints N [] peer = False"
| "route_endpoints N (e # es) peer =
     (if Contains N e peer then True else route_endpoints N es peer)"

text \<open>
  The inner loop of the STRICT_DNS case, over the addresses \<open>hs\<close> of one domain.
\<close>

fun route_addresses :: "('ip, 'net) net_pkg \<Rightarrow> 'ip list \<Rightarrow> 'ip \<Rightarrow> bool" where
  "route_addresses N [] peer = False"
| "route_addresses N (n # hs) peer =
     (if Equal N n peer then True else route_addresses N hs peer)"

text \<open>
  The outer loop of the STRICT_DNS case. When \<^verbatim>\<open>Lookup\<close> returns an error the code logs it
  and goes on to range over \<open>hs\<close> all the same (there is no \<^verbatim>\<open>continue\<close>), so the error
  component is not consulted.
\<close>

fun route_domains :: "('ip, 'net) net_pkg \<Rightarrow> 'ip DnsResolver \<Rightarrow> string list \<Rightarrow> 'ip \<Rightarrow> bool" where
  "route_domains N r [] peer = False"
| "route_domains N r (d # ds) peer =
     (case Lookup r d of (hs, err) \<Rightarrow>
        if route_addresses N hs peer then True else route_domains N r ds peer)"

text \<open>
  \<^verbatim>\<open>Route\<close>. The result is \<open>None\<close> where the Go code panics: at its first statement,
  \<^verbatim>\<open>c.log.Tracef\<close>, when the logger is nil (as in the zero-value Cluster), and at
  \<^verbatim>\<open>c.Resolver.Lookup(d)\<close> for a STRICT_DNS cluster with a domain to look up and a nil
  resolver.
\<close>

definition Route :: "('ip, 'net) net_pkg \<Rightarrow> ('ip, 'net) Cluster \<Rightarrow> 'ip \<Rightarrow> bool option" where
  "Route N c peer =
     (case log c of
        None \<Rightarrow> None
      | Some l \<Rightarrow>
          (case Type c of
             ClusterTypeStatic \<Rightarrow> Some (route_endpoints N (Endpoints c) peer)
           | ClusterTypeStrictDNS \<Rightarrow>
               (case Domains c of
                  [] \<Rightarrow> Some False
                | d # ds \<Rightarrow>
                    (case Resolver c of
                       None \<Rightarrow> None
                     | Some r \<Rightarrow> Some (route_domains N r (d # ds) peer)))
           | ClusterTypeUnknown \<Rightarrow> Some False))"

subsection \<open>Reconcile\<close>

text \<open>
  The loop of the STATIC case over \<^verbatim>\<open>req.Endpoints\<close>; \<open>eps\<close> is \<^verbatim>\<open>c.Endpoints\<close>, to which
  the loop appends.
\<close>

fun reconcile_endpoints :: "('ip, 'net) net_pkg \<Rightarrow> string list \<Rightarrow> 'net list \<Rightarrow> 'net list" where
  "reconcile_endpoints N [] eps = eps"
| "reconcile_endpoints N (e # es) eps =
     (case ParseCIDR N e of
        Some n \<Rightarrow> reconcile_endpoints N es (eps @ [n])
      | None \<Rightarrow>
          (case ParseIP N e of
             None \<Rightarrow> reconcile_endpoints N es eps
           | Some a \<Rightarrow>
               (let e' = (if To4 N a = None then e @ ''/128'' else e @ ''/32'')
                in case ParseCIDR N e' of
                     None \<Rightarrow> reconcile_endpoints N es eps
                   | Some n2 \<Rightarrow> reconcile_endpoints N es (eps @ [n2]))))"

text \<open>
  Modelled from the spec: \<^verbatim>\<open>util.Diff\<close> is declared outside the sources. The spec has
  Reconcile work on the domains present in current but absent in requested, and on the domains
  present in requested but absent in current, one step for every such domain.
\<close>

definition Diff :: "string list \<Rightarrow> string list \<Rightarrow> string list \<times> string list" where
  "Diff a b = (remdups [s \<leftarrow> a. s \<notin> set b], remdups [s \<leftarrow> b. s \<notin> set a])"

text \<open>
  Modelled from the spec: \<^verbatim>\<open>util.Remove\<close> is declared outside the sources. The spec has
  the domain removed from \<^verbatim>\<open>Domains\<close>.
\<close>

definition Remove :: "string list \<Rightarrow> string \<Rightarrow> string list" where
  "Remove ss e = removeAll e ss"

text \<open>
  The two loops of the STRICT_DNS case; \<open>ds\<close> is \<^verbatim>\<open>c.Domains\<close>. Each returns the new
  \<^verbatim>\<open>c.Domains\<close> and the calls made on the resolver.
\<close>

fun unregister_deleted :: "string list \<Rightarrow> string list \<Rightarrow> string list \<times> resolver_call list" where
  "unregister_deleted [] ds = (ds, [])"
| "unregister_deleted (h # hs) ds =
     (case unregister_deleted hs (Remove ds h) of
        (ds', cs) \<Rightarrow> (ds', UnregisterCall h # cs))"

fun register_added :: "'ip DnsResolver \<Rightarrow> string list \<Rightarrow> string list \<Rightarrow> string list \<times> resolver_call list" where
  "register_added r [] ds = (ds, [])"
| "register_added r (h # hs) ds =
     (case register_added r hs (if Register r h = None then ds @ [h] else ds) of
        (ds', cs) \<Rightarrow> (ds', RegisterCall h (Register r h) # cs))"

text \<open>
  \<^verbatim>\<open>Reconcile\<close> returns the Cluster after the call, the calls made on the resolver and the
  error (\<open>None\<close> for nil). The type tag is overwritten before the case distinction, so it is
  already changed when the STRICT_DNS case returns its error. The result is \<open>None\<close> where
  the Go code panics: at \<^verbatim>\<open>c.log.Tracef\<close>, after the configuration has passed its checks,
  when the logger is nil.
\<close>

definition Reconcile ::
  "('ip, 'net) net_pkg \<Rightarrow> ('ip, 'net) Cluster \<Rightarrow> Config
     \<Rightarrow> (('ip, 'net) Cluster \<times> resolver_call list \<times> error option) option" where
  "Reconcile N c conf =
     (case conf of
        OtherConf \<Rightarrow> Some (c, [], Some ErrInvalidConf)
      | ClusterConf req \<Rightarrow>
          (case Validate req of
             Some err \<Rightarrow> Some (c, [], Some err)
           | None \<Rightarrow>
               (case log c of
                  None \<Rightarrow> None
                | Some l \<Rightarrow>
                    (let c1 = c\<lparr>Type := fst (NewClusterType (conf_Type req))\<rparr>
                     in case Type c1 of
                          ClusterTypeStatic \<Rightarrow>
                            Some (c1\<lparr>Endpoints := reconcile_endpoints N (conf_Endpoints req) []\<rparr>,
                                  [], None)
                        | ClusterTypeStrictDNS \<Rightarrow>
                            (case Resolver c1 of
                               None \<Rightarrow> Some (c1, [], Some ErrNoResolver)
                             | Some r \<Rightarrow>
                                 (case Diff (Domains c1) (conf_Endpoints req) of
                                    (deleted, added) \<Rightarrow>
                                      (case unregister_deleted deleted (Domains c1) of
                                         (ds1, cs1) \<Rightarrow>
                                           (case register_added r added ds1 of
                                              (ds2, cs2) \<Rightarrow>
                                                Some (c1\<lparr>Domains := ds2\<rparr>, cs1 @ cs2, None)))))
                        | ClusterTypeUnknown \<Rightarrow> Some (c1, [], None)))))"

subsection \<open>NewCluster, ClusterFactory.New, GetConfig, Close\<close>

text \<open>
  \<^verbatim>\<open>NewCluster\<close> returns the object (\<open>None\<close> for nil), the calls made on the resolver and
  the error; \<open>factory\<close> is its argument \<^verbatim>\<open>logger\<close>. The result is \<open>None\<close> where the Go
  code panics: at \<^verbatim>\<open>logger.NewLogger\<close> when the logger factory is nil.
\<close>

definition NewCluster ::
  "('ip, 'net) net_pkg \<Rightarrow> Config \<Rightarrow> 'ip DnsResolver option \<Rightarrow> LoggerFactory option
     \<Rightarrow> (('ip, 'net) Cluster option \<times> resolver_call list \<times> error option) option" where
  "NewCluster N conf resolver factory =
     (case conf of
        OtherConf \<Rightarrow> Some (None, [], Some ErrInvalidConf)
      | ClusterConf req \<Rightarrow>
          (case Validate req of
             Some err \<Rightarrow> Some (None, [], Some err)
           | None \<Rightarrow>
               (case factory of
                  None \<Rightarrow> None
                | Some f \<Rightarrow>
                    (let c = \<lparr>Name = conf_Name req, Type = ClusterTypeUnknown, Endpoints = [],
                               Domains = [], Resolver = resolver, logger = Some f,
                               log = Some (NewLogger f (''stunner-cluster-'' @ conf_Name req))\<rparr>
                     in case Reconcile N c (ClusterConf req) of
                          None \<Rightarrow> None
                        | Some (c', cs, err) \<Rightarrow>
                            if err \<noteq> None \<and> err \<noteq> Some ErrRestartRequired
                            then Some (None, cs, err)
                            else Some (Some c', cs, None)))))"

text \<open>
  \<^verbatim>\<open>ClusterFactory.New\<close>, with the factory's resolver and logger as arguments: a nil
  configuration (\<open>None\<close>) gives the zero-value Cluster \<^verbatim>\<open>&Cluster{}\<close>, which has no
  logger.
\<close>

definition ClusterFactory_New ::
  "('ip, 'net) net_pkg \<Rightarrow> 'ip DnsResolver option \<Rightarrow> LoggerFactory option \<Rightarrow> Config option
     \<Rightarrow> (('ip, 'net) Cluster option \<times> resolver_call list \<times> error option) option" where
  "ClusterFactory_New N resolver factory conf =
     (case conf of
        None \<Rightarrow>
          Some (Some \<lparr>Name = [], Type = ClusterTypeUnknown, Endpoints = [], Domains = [],
                       Resolver = None, logger = None, log = None\<rparr>, [], None)
      | Some cf \<Rightarrow> NewCluster N cf resolver factory)"

text \<open>
  \<^verbatim>\<open>sort.StringSlice(x)\<close> is a conversion of \<open>x\<close> to the named slice type
  \<^verbatim>\<open>sort.StringSlice\<close> of Go's standard library (the type that carries the methods
  \<^verbatim>\<open>Len\<close>, \<^verbatim>\<open>Less\<close>, \<^verbatim>\<open>Swap\<close> and \<^verbatim>\<open>Sort\<close>). The conversion calls none of them: the
  elements and their order are those of \<open>x\<close>.
\<close>

definition StringSlice :: "string list \<Rightarrow> string list" where
  "StringSlice x = x"

definition GetConfig :: "('ip, 'net) net_pkg \<Rightarrow> ('ip, 'net) Cluster \<Rightarrow> ClusterConfig" where
  "GetConfig N c =
     (let conf = \<lparr>conf_Name = Name c, conf_Type = ClusterType_String (Type c),
                  conf_Endpoints = []\<rparr>
      in case Type c of
           ClusterTypeStatic \<Rightarrow> conf\<lparr>conf_Endpoints := map (IPNet_String N) (Endpoints c)\<rparr>
         | ClusterTypeStrictDNS \<Rightarrow> conf\<lparr>conf_Endpoints := StringSlice (Domains c)\<rparr>
         | ClusterTypeUnknown \<Rightarrow> conf)"

text \<open>
  \<^verbatim>\<open>Close\<close> returns the calls made on the resolver and the error, which is always nil; the
  Cluster itself is not written to. The result is \<open>None\<close> where the Go code panics: at its
  first statement, \<^verbatim>\<open>c.log.Trace\<close>, when the logger is nil, and at
  \<^verbatim>\<open>c.Resolver.Unregister(d)\<close> for a STRICT_DNS cluster with a domain to unregister and a
  nil resolver.
\<close>

definition Close :: "('ip, 'net) Cluster \<Rightarrow> (resolver_call list \<times> error option) option" where
  "Close c =
     (case log c of
        None \<Rightarrow> None
      | Some l \<Rightarrow>
          (case Type c of
             ClusterTypeStatic \<Rightarrow> Some ([], None)
           | ClusterTypeStrictDNS \<Rightarrow>
               (case Domains c of
                  [] \<Rightarrow> Some ([], None)
                | d # ds \<Rightarrow>
                    (case Resolver c of
                       None \<Rightarrow> None
                     | Some r \<Rightarrow> Some (map UnregisterCall (d # ds), None)))
           | ClusterTypeUnknown \<Rightarrow> Some ([], None)))"

subsection \<open>An instance of the \<^verbatim>\<open>net\<close> parameter: IPv4 dotted-decimal text\<close>

text \<open>
  To evaluate the functions on concrete configurations, \<open>net4\<close> gives the results of Go's
  \<^verbatim>\<open>net\<close> functions on IPv4 text: an address is its four octets (\<^verbatim>\<open>net.IP\<close> is a byte
  slice), a subnet is the masked network address and the prefix length. Text in IPv6 notation
  is outside this instance, which is used on IPv4 text and on text that is no address at all.
\<close>

definition is_digit :: "char \<Rightarrow> bool" where
  "is_digit c = (48 \<le> (of_char c :: nat) \<and> (of_char c :: nat) \<le> 57)"

fun dec_value :: "string \<Rightarrow> nat \<Rightarrow> nat option" where
  "dec_value [] acc = Some acc"
| "dec_value (c # cs) acc =
     (if is_digit c then dec_value cs (10 * acc + (of_char c - 48)) else None)"

fun split_on :: "char \<Rightarrow> string \<Rightarrow> string list" where
  "split_on sep [] = [[]]"
| "split_on sep (x # xs) =
     (if x = sep then [] # split_on sep xs
      else (case split_on sep xs of [] \<Rightarrow> [[x]] | w # ws \<Rightarrow> (x # w) # ws))"

definition parse_octet :: "string \<Rightarrow> nat option" where
  "parse_octet s =
     (if s = [] \<or> 3 < length s \<or> (1 < length s \<and> hd s = CHR ''0'') then None
      else case dec_value s 0 of
             None \<Rightarrow> None
           | Some v \<Rightarrow> if v \<le> 255 then Some v else None)"

definition parse_ip4 :: "string \<Rightarrow> nat list option" where
  "parse_ip4 s =
     (case map parse_octet (split_on (CHR ''.'') s) of
        [Some a, Some b, Some c, Some d] \<Rightarrow> Some [a, b, c, d]
      | _ \<Rightarrow> None)"

definition ip4_value :: "nat list \<Rightarrow> nat" where
  "ip4_value ip = foldl (\<lambda>v b. 256 * v + b) 0 ip"

definition ip4_octets :: "nat \<Rightarrow> nat list" where
  "ip4_octets v = [v div 16777216 mod 256, v div 65536 mod 256, v div 256 mod 256, v mod 256]"

definition ip4_mask :: "nat list \<Rightarrow> nat \<Rightarrow> nat list" where
  "ip4_mask ip n = ip4_octets (ip4_value ip div 2 ^ (32 - n) * 2 ^ (32 - n))"

definition parse_cidr4 :: "string \<Rightarrow> (nat list \<times> nat) option" where
  "parse_cidr4 s =
     (case split_on (CHR ''/'') s of
        [a, m] \<Rightarrow>
          (case parse_ip4 a of
             None \<Rightarrow> None
           | Some ip \<Rightarrow>
               (case (if m = [] then None else dec_value m 0) of
                  None \<Rightarrow> None
                | Some n \<Rightarrow> if n \<le> 32 then Some (ip4_mask ip n, n) else None))
      | _ \<Rightarrow> None)"

definition contains4 :: "nat list \<times> nat \<Rightarrow> nat list \<Rightarrow> bool" where
  "contains4 nw ip =
     (length ip = 4 \<and>
      ip4_value ip div 2 ^ (32 - snd nw) = ip4_value (fst nw) div 2 ^ (32 - snd nw))"

fun show_nat :: "nat \<Rightarrow> string" where
  "show_nat n =
     (if n < 10 then [''0123456789'' ! n]
      else show_nat (n div 10) @ [''0123456789'' ! (n mod 10)])"

fun join_dots :: "string list \<Rightarrow> string" where
  "join_dots [] = []"
| "join_dots [s] = s"
| "join_dots (s # t # ss) = s @ ''.'' @ join_dots (t # ss)"

definition ipnet4_string :: "nat list \<times> nat \<Rightarrow> string" where
  "ipnet4_string nw = join_dots (map show_nat (fst nw)) @ ''/'' @ show_nat (snd nw)"

definition net4 :: "(nat list, nat list \<times> nat) net_pkg" where
  "net4 = \<lparr>ParseCIDR = parse_cidr4, ParseIP = parse_ip4,
           To4 = (\<lambda>a. if length a = 4 then Some a else None),
           Contains = contains4, Equal = (\<lambda>a b. a = b), IPNet_String = ipnet4_string\<rparr>"

subsection \<open>The parse chain, in the words of the spec\<close>

text \<open>
  The spec describes what Reconcile does with one endpoint literal: (a) parse it as a CIDR
  subnet; (b) else parse it as a bare address, append \<^verbatim>\<open>/32\<close> for IPv4 or \<^verbatim>\<open>/128\<close> for
  IPv6 and parse that as CIDR; (c) if both fail, skip the literal. \<open>parse_chain\<close> is this
  description, to be compared with the loop \<open>reconcile_endpoints\<close> of the code.
\<close>

definition parse_chain :: "('ip, 'net) net_pkg \<Rightarrow> string \<Rightarrow> 'net option" where
  "parse_chain N e =
     (case ParseCIDR N e of
        Some n \<Rightarrow> Some n
      | None \<Rightarrow>
          (case ParseIP N e of
             None \<Rightarrow> None
           | Some a \<Rightarrow>
               (case To4 N a of
                  Some a4 \<Rightarrow> ParseCIDR N (e @ ''/32'')
                | None \<Rightarrow> ParseCIDR N (e @ ''/128''))))"

subsection \<open>Example configurations\<close>

definition static_conf :: ClusterConfig where
  "static_conf =
     \<lparr>conf_Name = ''media-plane'', conf_Type = ''STATIC'',
      conf_Endpoints = [''10.0.0.0/24'', ''not-an-address'', ''192.168.1.1'']\<rparr>"

definition static_cluster :: "(nat list, nat list \<times> nat) Cluster" where
  "static_cluster =
     \<lparr>Name = ''media-plane'', Type = ClusterTypeStatic,
      Endpoints = [([10, 0, 0, 0], 24), ([192, 168, 1, 1], 32)],
      Domains = [], Resolver = None, logger = Some LoggerFactory,
      log = Some (LeveledLogger ''stunner-cluster-media-plane'')\<rparr>"

definition empty_cluster :: "(nat list, nat list \<times> nat) Cluster" where
  "empty_cluster =
     \<lparr>Name = ''media-plane'', Type = ClusterTypeStrictDNS, Endpoints = [], Domains = [],
      Resolver = None, logger = Some LoggerFactory,
      log = Some (LeveledLogger ''stunner-cluster-media-plane'')\<rparr>"

text \<open>
  A resolver that rejects the name \<^verbatim>\<open>bad..name\<close>, has no address for \<^verbatim>\<open>a.com\<close> and
  resolves \<^verbatim>\<open>b.com\<close> to 10.0.0.7.
\<close>

definition example_resolver :: "nat list DnsResolver" where
  "example_resolver =
     \<lparr>Register = (\<lambda>d. if d = ''bad..name'' then Some ErrRegister else None),
      Lookup = (\<lambda>d. if d = ''b.com'' then ([[10, 0, 0, 7]], None) else ([], Some ErrLookup))\<rparr>"

definition dns_cluster :: "(nat list, nat list \<times> nat) Cluster" where
  "dns_cluster =
     \<lparr>Name = ''media-plane'', Type = ClusterTypeStrictDNS, Endpoints = [],
      Domains = [''a.com'', ''b.com''], Resolver = Some example_resolver,
      logger = Some LoggerFactory,
      log = Some (LeveledLogger ''stunner-cluster-media-plane'')\<rparr>"

text \<open>
  The reconcile example of the spec, from the domains a.com and b.com to b.com and c.com, with
  a name that the resolver rejects added to the request.
\<close>

definition dns_conf :: ClusterConfig where
  "dns_conf =
     \<lparr>conf_Name = ''media-plane'', conf_Type = ''STRICT_DNS'',
      conf_Endpoints = [''b.com'', ''c.com'', ''bad..name'']\<rparr>"

subsection \<open>Closed forms of the STRICT_DNS case of Reconcile\<close>

text \<open>
  With current domains \<open>D\<close> and requested list \<open>R\<close>, the STRICT_DNS case keeps the domains of
  \<open>D\<close> that are requested and appends the new ones that the resolver accepts; it calls
  Unregister on the deleted domains and then Register on the added ones. These closed forms
  are used to state the theorems; that the loops of Reconcile compute them is proved below
  (lemma \<open>Reconcile_strict_dns_eq\<close>).
\<close>

definition reconciled_domains :: "'ip DnsResolver \<Rightarrow> string list \<Rightarrow> string list \<Rightarrow> string list" where
  "reconciled_domains r D R =
     [d \<leftarrow> D. d \<in> set R] @ [h \<leftarrow> remdups [s \<leftarrow> R. s \<notin> set D]. Register r h = None]"

definition reconcile_calls :: "'ip DnsResolver \<Rightarrow> string list \<Rightarrow> string list \<Rightarrow> resolver_call list" where
  "reconcile_calls r D R =
     map UnregisterCall (remdups [d \<leftarrow> D. d \<notin> set R]) @
     map (\<lambda>h. RegisterCall h (Register r h)) (remdups [s \<leftarrow> R. s \<notin> set D])"

subsection \<open>The states a Cluster goes through\<close>

text \<open>
  A Cluster is built by \<^verbatim>\<open>NewCluster\<close> and then changed by \<^verbatim>\<open>Reconcile\<close> only.
  \<open>reachable N c cs\<close> says that the Cluster can be in state \<open>c\<close> after having made the calls
  \<open>cs\<close> on its resolver, in this order, since it was built.
\<close>

inductive reachable ::
  "('ip, 'net) net_pkg \<Rightarrow> ('ip, 'net) Cluster \<Rightarrow> resolver_call list \<Rightarrow> bool"
  for N :: "('ip, 'net) net_pkg" where
  new: "NewCluster N conf resolver factory = Some (Some c, cs, err) \<Longrightarrow> reachable N c cs"
| reconcile: "reachable N c cs \<Longrightarrow> Reconcile N c conf = Some (c', cs', err) \<Longrightarrow>
     reachable N c' (cs @ cs')"

text \<open>A configuration without a name.\<close>

definition nameless_conf :: ClusterConfig where
  "nameless_conf =
     \<lparr>conf_Name = [], conf_Type = ''STATIC'', conf_Endpoints = [''10.0.0.0/24'']\<rparr>"

text \<open>
  Two more STRICT_DNS configurations, and the Cluster that \<^verbatim>\<open>NewCluster\<close> builds from the
  first and Reconcile then takes to the second.
\<close>

definition b_conf :: ClusterConfig where
  "b_conf =
     \<lparr>conf_Name = ''media-plane'', conf_Type = ''STRICT_DNS'', conf_Endpoints = [''b.com'']\<rparr>"

definition ab_conf :: ClusterConfig where
  "ab_conf =
     \<lparr>conf_Name = ''media-plane'', conf_Type = ''STRICT_DNS'',
      conf_Endpoints = [''a.com'', ''b.com'']\<rparr>"

definition ba_cluster :: "(nat list, nat list \<times> nat) Cluster" where
  "ba_cluster =
     \<lparr>Name = ''media-plane'', Type = ClusterTypeStrictDNS, Endpoints = [],
      Domains = [''b.com'', ''a.com''], Resolver = Some example_resolver,
      logger = Some LoggerFactory,
      log = Some (LeveledLogger ''stunner-cluster-media-plane'')\<rparr>"



section \<open>Properties of Route\<close>

lemma route_endpoints_iff:
  "route_endpoints N es peer = (\<exists>e\<in>set es. Contains N e peer)"
  by (induction es) auto

lemma route_addresses_iff:
  "route_addresses N hs peer = (\<exists>n\<in>set hs. Equal N n peer)"
  by (induction hs) auto

lemma route_domains_iff:
  "route_domains N r ds peer = (\<exists>d\<in>set ds. \<exists>n\<in>set (fst (Lookup r d)). Equal N n peer)"
  by (induction ds) (auto simp: route_addresses_iff split: prod.splits)

lemmas net4_defs =
  net4_def parse_cidr4_def parse_ip4_def parse_octet_def is_digit_def ip4_mask_def
  ip4_value_def ip4_octets_def contains4_def ipnet4_string_def

text \<open>
  Route on the zero-value Cluster that \<^verbatim>\<open>ClusterFactory.New\<close> returns for a nil
  configuration panics: the Cluster has no logger.
\<close>

lemma Route_zero_value:
  "ClusterFactory_New N resolver factory None = Some (Some c, cs, err) \<Longrightarrow>
   Route N c peer = None"
  by (auto simp: ClusterFactory_New_def Route_def)

text \<open>
  Claim C1. For a Cluster of type STATIC that has its logger, as every Cluster built by
  \<^verbatim>\<open>NewCluster\<close> has, Route returns true exactly when the peer falls inside
  (\<^verbatim>\<open>IPNet.Contains\<close>) at least one subnet of \<^verbatim>\<open>Endpoints\<close>; the scan stops at the first
  subnet that contains the peer, so what follows it has no influence; and such a Cluster with
  no endpoints and no domains returns false for every peer.
\<close>

theorem Route_static:
  "(log c \<noteq> None \<and> Type c = ClusterTypeStatic \<longrightarrow>
      Route N c peer = Some (\<exists>e\<in>set (Endpoints c). Contains N e peer)) \<and>
   (log c \<noteq> None \<and> Type c = ClusterTypeStatic \<and> Endpoints c = es1 @ e # es2 \<and>
    Contains N e peer \<longrightarrow>
      Route N c peer = Some True \<and> Route N (c\<lparr>Endpoints := es1 @ [e]\<rparr>) peer = Some True) \<and>
   (log c \<noteq> None \<and> Endpoints c = [] \<and> Domains c = [] \<longrightarrow> Route N c peer = Some False)"
  by (cases "Type c") (auto simp: Route_def route_endpoints_iff)

theorem Route_static_witness:
  "log static_cluster \<noteq> None \<and> Type static_cluster = ClusterTypeStatic \<and>
   Endpoints static_cluster = [] @ ([10, 0, 0, 0], 24) # [([192, 168, 1, 1], 32)] \<and>
   Contains net4 ([10, 0, 0, 0], 24) [10, 0, 0, 5] \<and>
   Route net4 static_cluster [10, 0, 0, 5] = Some True \<and>
   Route net4 static_cluster [10, 0, 1, 5] = Some False \<and>
   log empty_cluster \<noteq> None \<and> Endpoints empty_cluster = [] \<and> Domains empty_cluster = [] \<and>
   Route net4 empty_cluster [10, 0, 0, 5] = Some False"
  using Route_static [of static_cluster net4 "[10, 0, 0, 5]" "[]" "([10, 0, 0, 0], 24)"
      "[([192, 168, 1, 1], 32)]"]
    Route_static [of static_cluster net4 "[10, 0, 1, 5]"]
    Route_static [of empty_cluster net4 "[10, 0, 0, 5]"]
  by (simp add: static_cluster_def empty_cluster_def net4_defs)

text \<open>
  What Route computes for a STRICT_DNS cluster with a logger and a resolver: it is true
  exactly when the addresses that the lookup of some domain of \<^verbatim>\<open>Domains\<close> returns contain
  one that is equal (\<^verbatim>\<open>IP.Equal\<close>) to the peer. Whether the lookup returned an error as well
  has no part in it.
\<close>

lemma Route_strict_dns_iff:
  "log c \<noteq> None \<Longrightarrow> Type c = ClusterTypeStrictDNS \<Longrightarrow> Resolver c = Some r \<Longrightarrow>
   Route N c peer =
     Some (\<exists>d\<in>set (Domains c). \<exists>n\<in>set (fst (Lookup r d)). Equal N n peer)"
  by (cases "Domains c") (auto simp: Route_def route_domains_iff)


section \<open>Properties of Reconcile, STATIC case\<close>

lemma reconcile_endpoints_chain:
  "reconcile_endpoints N es eps = eps @ List.map_filter (parse_chain N) es"
  by (induction es arbitrary: eps)
    (auto simp: parse_chain_def Let_def split: option.splits)

lemma NewClusterType_simps:
  "NewClusterType ''STATIC'' = (ClusterTypeStatic, None)"
  "NewClusterType ''STRICT_DNS'' = (ClusterTypeStrictDNS, None)"
  by (simp_all add: NewClusterType_def)

lemma Validate_None_iff:
  "Validate req = None \<longleftrightarrow>
     conf_Name req \<noteq> [] \<and> (conf_Type req = ''STATIC'' \<or> conf_Type req = ''STRICT_DNS'')"
  by (simp add: Validate_def NewClusterType_def)

lemma Reconcile_static_eq:
  "log c \<noteq> None \<Longrightarrow> conf_Name req \<noteq> [] \<Longrightarrow> conf_Type req = ''STATIC'' \<Longrightarrow>
   Reconcile N c (ClusterConf req) =
     Some (c\<lparr>Type := ClusterTypeStatic,
             Endpoints := List.map_filter (parse_chain N) (conf_Endpoints req)\<rparr>, [], None)"
  by (auto simp: Reconcile_def Validate_def NewClusterType_simps reconcile_endpoints_chain)

lemma set_map_filter:
  "set (List.map_filter f xs) = {y. \<exists>x\<in>set xs. f x = Some y}"
  by (induction xs) (auto split: option.splits)

text \<open>
  Claim C3. Reconcile with a STATIC configuration, on a Cluster that has its logger, returns
  no error, makes no call on the resolver and replaces \<^verbatim>\<open>Endpoints\<close>, whatever it held before, by the subnets that the parse
  chain of the spec yields on the literals of the configuration, in their order; a literal on
  which the chain fails is skipped, and every literal on which it succeeds has its subnet in
  the result.
\<close>

theorem Reconcile_static:
  "log c \<noteq> None \<Longrightarrow> conf_Name req \<noteq> [] \<Longrightarrow> conf_Type req = ''STATIC'' \<Longrightarrow>
   Reconcile N c (ClusterConf req) =
     Some (c\<lparr>Type := ClusterTypeStatic,
             Endpoints := List.map_filter (parse_chain N) (conf_Endpoints req)\<rparr>, [], None) \<and>
   set (List.map_filter (parse_chain N) (conf_Endpoints req)) =
     {n. \<exists>e\<in>set (conf_Endpoints req). parse_chain N e = Some n}"
  by (simp add: Reconcile_static_eq set_map_filter)

lemma parse_chain_net4_examples:
  "parse_chain net4 ''10.0.0.0/24'' = Some ([10, 0, 0, 0], 24)"
  "parse_chain net4 ''not-an-address'' = None"
  "parse_chain net4 ''192.168.1.1'' = Some ([192, 168, 1, 1], 32)"
  by (simp_all add: parse_chain_def net4_defs)

theorem Reconcile_static_witness:
  "log (static_cluster\<lparr>Endpoints := [([172, 16, 0, 0], 12)]\<rparr>) \<noteq> None \<and>
   conf_Name static_conf \<noteq> [] \<and> conf_Type static_conf = ''STATIC'' \<and>
   Reconcile net4 (static_cluster\<lparr>Endpoints := [([172, 16, 0, 0], 12)]\<rparr>)
       (ClusterConf static_conf) =
     Some (static_cluster, [], None)"
proof -
  have n: "conf_Name static_conf \<noteq> []" and t: "conf_Type static_conf = ''STATIC''"
    by (simp_all add: static_conf_def)
  have l: "log (static_cluster\<lparr>Endpoints := [([172, 16, 0, 0], 12)]\<rparr>) \<noteq> None"
    by (simp add: static_cluster_def)
  have "List.map_filter (parse_chain net4) (conf_Endpoints static_conf) =
      [([10, 0, 0, 0], 24), ([192, 168, 1, 1], 32)]"
    by (simp add: static_conf_def parse_chain_net4_examples)
  then show ?thesis
    using n t l Reconcile_static [OF l n t, of net4]
    by (simp add: static_cluster_def)
qed

section \<open>Properties of Reconcile, STRICT_DNS case\<close>

lemma unregister_deleted_eq:
  "unregister_deleted hs ds = ([d \<leftarrow> ds. d \<notin> set hs], map UnregisterCall hs)"
proof (induction hs arbitrary: ds)
  case Nil
  then show ?case by simp
next
  case (Cons h hs)
  have "[d \<leftarrow> removeAll h ds. d \<notin> set hs] = [d \<leftarrow> ds. d \<notin> set (h # hs)]"
    by (induction ds) auto
  with Cons show ?case by (simp add: Remove_def)
qed

lemma register_added_eq:
  "register_added r hs ds =
     (ds @ [h \<leftarrow> hs. Register r h = None], map (\<lambda>h. RegisterCall h (Register r h)) hs)"
  by (induction hs arbitrary: ds) auto

lemma Reconcile_strict_dns_eq:
  assumes "log c \<noteq> None"
    and "conf_Name req \<noteq> []" and "conf_Type req = ''STRICT_DNS''" and "Resolver c = Some r"
  shows "Reconcile N c (ClusterConf req) =
     Some (c\<lparr>Type := ClusterTypeStrictDNS,
             Domains := reconciled_domains r (Domains c) (conf_Endpoints req)\<rparr>,
           reconcile_calls r (Domains c) (conf_Endpoints req), None)"
proof -
  have "[d \<leftarrow> Domains c. d \<notin> set (remdups [d \<leftarrow> Domains c. d \<notin> set (conf_Endpoints req)])] =
      [d \<leftarrow> Domains c. d \<in> set (conf_Endpoints req)]"
    by (rule filter_cong) auto
  with assms show ?thesis
    by (auto simp: Reconcile_def Validate_def NewClusterType_simps Diff_def
        unregister_deleted_eq register_added_eq reconciled_domains_def reconcile_calls_def)
qed

lemma count_list_distinct:
  "distinct xs \<Longrightarrow> count_list xs x = (if x \<in> set xs then 1 else 0)"
  by (induction xs) auto

lemma count_list_UnregisterCall:
  "count_list (map UnregisterCall hs) (UnregisterCall d) = count_list hs d"
  "count_list (map UnregisterCall hs) (RegisterCall d res) = 0"
  by (induction hs) auto

lemma count_list_RegisterCall:
  "count_list (map (\<lambda>h. RegisterCall h (f h)) hs) (RegisterCall d res) =
     (if res = f d then count_list hs d else 0)"
  "count_list (map (\<lambda>h. RegisterCall h (f h)) hs) (UnregisterCall d) = 0"
  by (induction hs) auto

lemma count_reconcile_calls:
  "count_list (reconcile_calls r D R) (UnregisterCall d) =
     (if d \<in> set D - set R then 1 else 0)"
  "count_list (reconcile_calls r D R) (RegisterCall d res) =
     (if d \<in> set R - set D \<and> res = Register r d then 1 else 0)"
  by (simp_all add: reconcile_calls_def count_list_UnregisterCall count_list_RegisterCall
      count_list_distinct)

lemma set_reconciled_domains:
  "set (reconciled_domains r D R) =
     (set D \<inter> set R) \<union> {d \<in> set R - set D. Register r d = None}"
  by (auto simp: reconciled_domains_def)

lemma distinct_reconciled_domains:
  "distinct D \<Longrightarrow> distinct (reconciled_domains r D R)"
  by (auto simp: reconciled_domains_def)

text \<open>
  Claim C4. Reconcile of a STRICT_DNS cluster with a resolver, from the current domains \<open>D\<close>
  to the requested list \<open>R\<close>, returns no error, whatever the registrations answer (it
  returns whenever the Cluster has its logger, see \<open>Reconcile_eq\<close> below). It calls
  Unregister exactly once on every domain of \<open>D\<close> that is not in \<open>R\<close> and on no other domain;
  it calls Register exactly once on every domain of \<open>R\<close> that is not in \<open>D\<close> and on no other
  domain, so a domain of both is not registered again. The new \<^verbatim>\<open>Domains\<close> holds the domains
  of \<open>D\<close> that are in \<open>R\<close> and the new domains whose registration succeeded: as a set, \<open>R\<close>
  without the entries whose registration failed.
\<close>

theorem Reconcile_strict_dns:
  assumes "conf_Name req \<noteq> []" and "conf_Type req = ''STRICT_DNS''"
    and "Resolver c = Some r"
    and "Reconcile N c (ClusterConf req) = Some (c', cs, err)"
  shows "err = None \<and>
    count_list cs (UnregisterCall d) =
      (if d \<in> set (Domains c) - set (conf_Endpoints req) then 1 else 0) \<and>
    count_list cs (RegisterCall d res) =
      (if d \<in> set (conf_Endpoints req) - set (Domains c) \<and> res = Register r d then 1 else 0) \<and>
    set (Domains c') =
      (set (Domains c) \<inter> set (conf_Endpoints req)) \<union>
      {h \<in> set (conf_Endpoints req) - set (Domains c). Register r h = None} \<and>
    set (Domains c') =
      set (conf_Endpoints req) -
      {h \<in> set (conf_Endpoints req) - set (Domains c). Register r h \<noteq> None}"
proof -
  have "log c \<noteq> None"
    using assms by (cases "log c") (simp_all add: Reconcile_def Validate_def NewClusterType_simps)
  then have c': "c' = c\<lparr>Type := ClusterTypeStrictDNS,
        Domains := reconciled_domains r (Domains c) (conf_Endpoints req)\<rparr>"
    and cs: "cs = reconcile_calls r (Domains c) (conf_Endpoints req)"
    and err: "err = None"
    using assms Reconcile_strict_dns_eq [of c req r N] by simp_all
  have dom: "set (Domains c') =
      (set (Domains c) \<inter> set (conf_Endpoints req)) \<union>
      {h \<in> set (conf_Endpoints req) - set (Domains c). Register r h = None}"
    by (simp add: c' set_reconciled_domains)
  have "set (Domains c') =
      set (conf_Endpoints req) -
      {h \<in> set (conf_Endpoints req) - set (Domains c). Register r h \<noteq> None}"
    using dom by auto
  then show ?thesis
    using err dom by (simp add: cs count_reconcile_calls)
qed

theorem Reconcile_strict_dns_witness:
  "conf_Name dns_conf \<noteq> [] \<and> conf_Type dns_conf = ''STRICT_DNS'' \<and>
   Resolver dns_cluster = Some example_resolver \<and>
   Reconcile net4 dns_cluster (ClusterConf dns_conf) =
     Some (dns_cluster\<lparr>Domains := [''b.com'', ''c.com'']\<rparr>,
      [UnregisterCall ''a.com'', RegisterCall ''c.com'' None,
       RegisterCall ''bad..name'' (Some ErrRegister)], None) \<and>
   count_list [UnregisterCall ''a.com'', RegisterCall ''c.com'' None,
       RegisterCall ''bad..name'' (Some ErrRegister)] (RegisterCall ''b.com'' None) = 0 \<and>
   set (Domains (dns_cluster\<lparr>Domains := [''b.com'', ''c.com'']\<rparr>)) =
     set (conf_Endpoints dns_conf) -
     {h \<in> set (conf_Endpoints dns_conf) - set (Domains dns_cluster).
        Register example_resolver h \<noteq> None}"
proof -
  have n: "conf_Name dns_conf \<noteq> []" and t: "conf_Type dns_conf = ''STRICT_DNS''"
    and r: "Resolver dns_cluster = Some example_resolver"
    by (simp_all add: dns_conf_def dns_cluster_def)
  have run: "Reconcile net4 dns_cluster (ClusterConf dns_conf) =
     Some (dns_cluster\<lparr>Domains := [''b.com'', ''c.com'']\<rparr>,
      [UnregisterCall ''a.com'', RegisterCall ''c.com'' None,
       RegisterCall ''bad..name'' (Some ErrRegister)], None)"
    by (simp add: Reconcile_def Validate_def NewClusterType_simps Diff_def Remove_def
        dns_conf_def dns_cluster_def example_resolver_def)
  note inst = Reconcile_strict_dns [OF n t r run, of "''b.com''" None]
  have "count_list [UnregisterCall ''a.com'', RegisterCall ''c.com'' None,
       RegisterCall ''bad..name'' (Some ErrRegister)] (RegisterCall ''b.com'' None) =
      (if ''b.com'' \<in> set (conf_Endpoints dns_conf) - set (Domains dns_cluster) \<and>
          None = Register example_resolver ''b.com'' then 1 else 0)"
    using inst by blast
  then have cnt: "count_list [UnregisterCall ''a.com'', RegisterCall ''c.com'' None,
       RegisterCall ''bad..name'' (Some ErrRegister)] (RegisterCall ''b.com'' None) = 0"
    by (simp add: dns_cluster_def)
  have "set (Domains (dns_cluster\<lparr>Domains := [''b.com'', ''c.com'']\<rparr>)) =
      set (conf_Endpoints dns_conf) -
      {h \<in> set (conf_Endpoints dns_conf) - set (Domains dns_cluster).
         Register example_resolver h \<noteq> None}"
    using inst by blast
  with n t r run cnt show ?thesis
    by blast
qed

section \<open>The outcomes of Reconcile\<close>

lemma Reconcile_eq:
  "Reconcile N c conf =
     (case conf of
        OtherConf \<Rightarrow> Some (c, [], Some ErrInvalidConf)
      | ClusterConf req \<Rightarrow>
          if conf_Name req = [] then Some (c, [], Some ErrMissingName)
          else if conf_Type req \<noteq> ''STATIC'' \<and> conf_Type req \<noteq> ''STRICT_DNS'' then
            Some (c, [], Some ErrUnknownClusterType)
          else if log c = None then None
          else if conf_Type req = ''STATIC'' then
            Some (c\<lparr>Type := ClusterTypeStatic,
                    Endpoints := List.map_filter (parse_chain N) (conf_Endpoints req)\<rparr>,
                  [], None)
          else
            (case Resolver c of
               None \<Rightarrow> Some (c\<lparr>Type := ClusterTypeStrictDNS\<rparr>, [], Some ErrNoResolver)
             | Some r \<Rightarrow>
                 Some (c\<lparr>Type := ClusterTypeStrictDNS,
                         Domains := reconciled_domains r (Domains c) (conf_Endpoints req)\<rparr>,
                       reconcile_calls r (Domains c) (conf_Endpoints req), None)))"
proof (cases conf)
  case OtherConf
  then show ?thesis by (simp add: Reconcile_def)
next
  case (ClusterConf req)
  consider "conf_Name req = []"
    | "conf_Name req \<noteq> []" "conf_Type req \<noteq> ''STATIC''" "conf_Type req \<noteq> ''STRICT_DNS''"
    | "conf_Name req \<noteq> []" "conf_Type req = ''STATIC'' \<or> conf_Type req = ''STRICT_DNS''"
      "log c = None"
    | "conf_Name req \<noteq> []" "conf_Type req = ''STATIC''" "log c \<noteq> None"
    | "conf_Name req \<noteq> []" "conf_Type req = ''STRICT_DNS''" "log c \<noteq> None"
      "Resolver c = None"
    | r where "conf_Name req \<noteq> []" "conf_Type req = ''STRICT_DNS''" "log c \<noteq> None"
      "Resolver c = Some r"
    by (cases "Resolver c") auto
  then show ?thesis
  proof cases
    case 1
    with ClusterConf show ?thesis by (simp add: Reconcile_def Validate_def)
  next
    case 2
    with ClusterConf show ?thesis
      by (simp add: Reconcile_def Validate_def NewClusterType_def)
  next
    case 3
    with ClusterConf show ?thesis
      by (auto simp: Reconcile_def Validate_def NewClusterType_simps)
  next
    case 4
    with ClusterConf show ?thesis by (simp add: Reconcile_static_eq)
  next
    case 5
    with ClusterConf show ?thesis
      by (auto simp: Reconcile_def Validate_def NewClusterType_simps)
  next
    case 6
    with ClusterConf show ?thesis by (simp add: Reconcile_strict_dns_eq)
  qed
qed

text \<open>
  Claim C8, as amended. Reconcile returns an error in these cases and in no other: the
  configuration is not a cluster configuration; the configuration has no name or a type
  literal other than STATIC and STRICT_DNS (it fails validation); the configuration is
  STRICT_DNS and the Cluster has no resolver. The endpoint literals, the registrations and
  the lookups have no part in it. Reconcile returns unless the Cluster has no logger and the
  configuration has passed validation, where it panics at its first logging call.
\<close>

theorem Reconcile_error:
  "(Reconcile N c conf = Some (c', cs, err) \<longrightarrow>
      err =
        (case conf of
           OtherConf \<Rightarrow> Some ErrInvalidConf
         | ClusterConf req \<Rightarrow>
             if conf_Name req = [] then Some ErrMissingName
             else if conf_Type req = ''STATIC'' then None
             else if conf_Type req = ''STRICT_DNS'' then
               (if Resolver c = None then Some ErrNoResolver else None)
             else Some ErrUnknownClusterType)) \<and>
   (Reconcile N c conf = None \<longleftrightarrow>
      log c = None \<and> (\<exists>req. conf = ClusterConf req \<and> Validate req = None))"
  by (auto simp: Reconcile_eq Validate_None_iff split: Config.splits option.splits if_splits)

theorem Reconcile_error_witness:
  "Reconcile net4 dns_cluster (ClusterConf dns_conf) =
     Some (dns_cluster\<lparr>Domains := [''b.com'', ''c.com'']\<rparr>,
      [UnregisterCall ''a.com'', RegisterCall ''c.com'' None,
       RegisterCall ''bad..name'' (Some ErrRegister)], None) \<and>
   Reconcile net4 static_cluster (ClusterConf dns_conf) =
     Some (static_cluster\<lparr>Type := ClusterTypeStrictDNS\<rparr>, [], Some ErrNoResolver) \<and>
   log static_cluster \<noteq> None \<and>
   Reconcile net4 static_cluster (ClusterConf static_conf) \<noteq> None"
proof -
  have one: "Reconcile net4 dns_cluster (ClusterConf dns_conf) =
     Some (dns_cluster\<lparr>Domains := [''b.com'', ''c.com'']\<rparr>,
      [UnregisterCall ''a.com'', RegisterCall ''c.com'' None,
       RegisterCall ''bad..name'' (Some ErrRegister)], None)"
    by (simp add: Reconcile_def Validate_def NewClusterType_simps Diff_def Remove_def
        dns_conf_def dns_cluster_def example_resolver_def)
  have two: "Reconcile net4 static_cluster (ClusterConf dns_conf) =
     Some (static_cluster\<lparr>Type := ClusterTypeStrictDNS\<rparr>, [], Some ErrNoResolver)"
    by (simp add: Reconcile_def Validate_def NewClusterType_simps dns_conf_def
        static_cluster_def)
  have l: "log static_cluster \<noteq> None"
    by (simp add: static_cluster_def)
  have "None = (case ClusterConf dns_conf of
           OtherConf \<Rightarrow> Some ErrInvalidConf
         | ClusterConf req \<Rightarrow>
             if conf_Name req = [] then Some ErrMissingName
             else if conf_Type req = ''STATIC'' then None
             else if conf_Type req = ''STRICT_DNS'' then
               (if Resolver dns_cluster = None then Some ErrNoResolver else None)
             else Some ErrUnknownClusterType)"
    using Reconcile_error [of net4 dns_cluster "ClusterConf dns_conf"] one by blast
  moreover have "Reconcile net4 static_cluster (ClusterConf static_conf) \<noteq> None"
    using Reconcile_error [of net4 static_cluster "ClusterConf static_conf", THEN conjunct2] l
    by simp
  ultimately show ?thesis
    using one two l by blast
qed

text \<open>
  The claim as stated fails: a configuration of another kind, and a STATIC configuration
  without a name, make Reconcile return an error, though the type literal is recognized and
  the configuration is not STRICT_DNS.
\<close>

theorem Reconcile_error_counterexample:
  "Reconcile net4 static_cluster OtherConf = Some (static_cluster, [], Some ErrInvalidConf) \<and>
   Reconcile net4 static_cluster (ClusterConf nameless_conf) =
     Some (static_cluster, [], Some ErrMissingName) \<and>
   snd (NewClusterType (conf_Type nameless_conf)) = None \<and>
   conf_Type nameless_conf \<noteq> ''STRICT_DNS''"
  by (simp add: Reconcile_def Validate_def NewClusterType_def nameless_conf_def)

section \<open>Reconcile twice\<close>

lemma reconciled_domains_again:
  "reconciled_domains r (reconciled_domains r D R) R = reconciled_domains r D R"
proof -
  have sub: "set (reconciled_domains r D R) \<subseteq> set R"
    by (auto simp: reconciled_domains_def)
  have "[d \<leftarrow> reconciled_domains r D R. d \<in> set R] = reconciled_domains r D R"
    using sub by (simp add: subset_code(1))
  moreover have "[h \<leftarrow> remdups [s \<leftarrow> R. s \<notin> set (reconciled_domains r D R)].
      Register r h = None] = []"
    by (auto simp: filter_empty_conv set_reconciled_domains)
  ultimately show ?thesis
    by (simp add: reconciled_domains_def [of r "reconciled_domains r D R" R])
qed

lemma reconcile_calls_again:
  "reconcile_calls r (reconciled_domains r D R) R =
     map (\<lambda>h. RegisterCall h (Register r h))
       (remdups [s \<leftarrow> R. s \<notin> set D \<and> Register r s \<noteq> None])"
proof -
  have "[d \<leftarrow> reconciled_domains r D R. d \<notin> set R] = []"
    by (auto simp: filter_empty_conv reconciled_domains_def)
  moreover have "[s \<leftarrow> R. s \<notin> set (reconciled_domains r D R)] =
      [s \<leftarrow> R. s \<notin> set D \<and> Register r s \<noteq> None]"
    by (rule filter_cong) (auto simp: set_reconciled_domains)
  ultimately show ?thesis
    by (simp add: reconcile_calls_def)
qed

lemma Reconcile_again:
  assumes "Reconcile N c conf = Some (c1, cs1, err1)"
  shows "Reconcile N c1 conf =
    Some (c1,
     (case conf of
        OtherConf \<Rightarrow> []
      | ClusterConf req \<Rightarrow>
          (case Resolver c of
             None \<Rightarrow> []
           | Some r \<Rightarrow>
               if conf_Name req \<noteq> [] \<and> conf_Type req = ''STRICT_DNS'' then
                 map (\<lambda>h. RegisterCall h (Register r h))
                   (remdups [s \<leftarrow> conf_Endpoints req.
                      s \<notin> set (Domains c) \<and> Register r s \<noteq> None])
               else [])),
     err1)"
  using assms
  by (auto simp: Reconcile_eq reconciled_domains_again reconcile_calls_again
      split: Config.splits option.splits if_splits)

lemma registered_after_append:
  "registered_after (cs @ cs') S = registered_after cs' (registered_after cs S)"
  by (induction cs S rule: registered_after.induct) simp_all

lemma registered_after_unregister:
  "registered_after (map UnregisterCall hs) S = S - set hs"
  by (induction hs arbitrary: S) auto

lemma registered_after_register:
  "registered_after (map (\<lambda>h. RegisterCall h (f h)) hs) S = S \<union> {h \<in> set hs. f h = None}"
proof (induction hs arbitrary: S)
  case Nil
  then show ?case by simp
next
  case (Cons h hs)
  then show ?case by (cases "f h") auto
qed

text \<open>
  Claim C9. Reconcile is idempotent: when a call of Reconcile has returned, a second call
  with the same configuration returns as well, with the same result, and leaves the Cluster in
  the state the first call left it in, so that \<^verbatim>\<open>Endpoints\<close> and \<^verbatim>\<open>Domains\<close> hold no entry
  more than after the first call; the second call unregisters nothing and registers no domain
  (it only asks again for the names that the resolver rejects), so the registrations are as
  before.
\<close>

theorem Reconcile_idempotent:
  assumes "Reconcile N c conf = Some (c1, cs1, err1)"
  shows "\<exists>c2 cs2 err2. Reconcile N c1 conf = Some (c2, cs2, err2) \<and>
    c2 = c1 \<and> err2 = err1 \<and> Endpoints c2 = Endpoints c1 \<and> Domains c2 = Domains c1 \<and>
    RegisterCall d None \<notin> set cs2 \<and> UnregisterCall d \<notin> set cs2 \<and>
    registered_after cs2 S = S"
proof -
  let ?cs2 = "case conf of
        OtherConf \<Rightarrow> []
      | ClusterConf req \<Rightarrow>
          (case Resolver c of
             None \<Rightarrow> []
           | Some r \<Rightarrow>
               if conf_Name req \<noteq> [] \<and> conf_Type req = ''STRICT_DNS'' then
                 map (\<lambda>h. RegisterCall h (Register r h))
                   (remdups [s \<leftarrow> conf_Endpoints req.
                      s \<notin> set (Domains c) \<and> Register r s \<noteq> None])
               else [])"
  have again: "Reconcile N c1 conf = Some (c1, ?cs2, err1)"
    using Reconcile_again [OF assms] .
  have calls: "RegisterCall d None \<notin> set ?cs2 \<and> UnregisterCall d \<notin> set ?cs2 \<and>
      registered_after ?cs2 S = S"
    by (cases conf; cases "Resolver c") (auto simp: registered_after_register)
  show ?thesis
    using again calls by blast
qed

theorem Reconcile_idempotent_witness:
  "Reconcile net4 dns_cluster (ClusterConf dns_conf) =
     Some (dns_cluster\<lparr>Domains := [''b.com'', ''c.com'']\<rparr>,
      [UnregisterCall ''a.com'', RegisterCall ''c.com'' None,
       RegisterCall ''bad..name'' (Some ErrRegister)], None) \<and>
   Reconcile net4 (dns_cluster\<lparr>Domains := [''b.com'', ''c.com'']\<rparr>) (ClusterConf dns_conf) =
     Some (dns_cluster\<lparr>Domains := [''b.com'', ''c.com'']\<rparr>,
      [RegisterCall ''bad..name'' (Some ErrRegister)], None) \<and>
   registered_after [RegisterCall ''bad..name'' (Some ErrRegister)] {''b.com'', ''c.com''} =
     {''b.com'', ''c.com''}"
proof -
  have one: "Reconcile net4 dns_cluster (ClusterConf dns_conf) =
     Some (dns_cluster\<lparr>Domains := [''b.com'', ''c.com'']\<rparr>,
      [UnregisterCall ''a.com'', RegisterCall ''c.com'' None,
       RegisterCall ''bad..name'' (Some ErrRegister)], None)"
    by (simp add: Reconcile_def Validate_def NewClusterType_simps Diff_def Remove_def
        dns_conf_def dns_cluster_def example_resolver_def)
  have two: "Reconcile net4 (dns_cluster\<lparr>Domains := [''b.com'', ''c.com'']\<rparr>)
      (ClusterConf dns_conf) =
     Some (dns_cluster\<lparr>Domains := [''b.com'', ''c.com'']\<rparr>,
      [RegisterCall ''bad..name'' (Some ErrRegister)], None)"
    by (simp add: Reconcile_def Validate_def NewClusterType_simps Diff_def Remove_def
        dns_conf_def dns_cluster_def example_resolver_def)
  from Reconcile_idempotent [OF one, of "''b.com''" "{''b.com'', ''c.com''}"]
  obtain cs2 where "Reconcile net4 (dns_cluster\<lparr>Domains := [''b.com'', ''c.com'']\<rparr>)
      (ClusterConf dns_conf) =
      Some (dns_cluster\<lparr>Domains := [''b.com'', ''c.com'']\<rparr>, cs2, None)"
    and "registered_after cs2 {''b.com'', ''c.com''} = {''b.com'', ''c.com''}"
    by blast
  with two have "registered_after [RegisterCall ''bad..name'' (Some ErrRegister)]
      {''b.com'', ''c.com''} = {''b.com'', ''c.com''}"
    by simp
  with one two show ?thesis
    by blast
qed

section \<open>Invariants of the reachable states\<close>

lemma registered_after_reconcile_calls:
  "registered_after (reconcile_calls r D R) S =
     (S - (set D - set R)) \<union> {h \<in> set R - set D. Register r h = None}"
  by (auto simp: reconcile_calls_def registered_after_append registered_after_unregister
      registered_after_register)

lemma Reconcile_Resolver:
  "Reconcile N c conf = Some (c', cs, err) \<Longrightarrow> Resolver c' = Resolver c \<and> log c' = log c"
  by (auto simp: Reconcile_eq split: Config.splits option.splits if_splits)

lemma Reconcile_registered:
  assumes "Reconcile N c conf = Some (c', cs, err)"
    and "distinct (Domains c)" and "set (Domains c) = S"
  shows "distinct (Domains c') \<and> set (Domains c') = registered_after cs S"
  using assms
  by (auto simp: Reconcile_eq distinct_reconciled_domains set_reconciled_domains
      registered_after_reconcile_calls split: Config.splits option.splits if_splits)

lemma Reconcile_needs_resolver:
  assumes "Reconcile N c conf = Some (c', cs, err)"
    and "Domains c \<noteq> [] \<longrightarrow> Resolver c \<noteq> None"
  shows "Domains c' \<noteq> [] \<longrightarrow> Resolver c' \<noteq> None"
  using assms
  by (auto simp: Reconcile_eq split: Config.splits option.splits if_splits)

lemma Reconcile_Type:
  assumes "Reconcile N c conf = Some (c', cs, err)"
    and "Type c \<noteq> ClusterTypeUnknown"
  shows "Type c' \<noteq> ClusterTypeUnknown"
  using assms
  by (auto simp: Reconcile_eq split: Config.splits option.splits if_splits)

lemma NewCluster_Some:
  assumes "NewCluster N conf resolver factory = Some (Some c, cs, err)"
  obtains req f where "conf = ClusterConf req" and "Validate req = None"
    and "Reconcile N \<lparr>Name = conf_Name req, Type = ClusterTypeUnknown, Endpoints = [],
        Domains = [], Resolver = resolver, logger = Some f,
        log = Some (NewLogger f (''stunner-cluster-'' @ conf_Name req))\<rparr> conf =
      Some (c, cs, None)" and "err = None"
proof (cases conf)
  case OtherConf
  with assms show ?thesis by (simp add: NewCluster_def)
next
  case (ClusterConf req)
  show ?thesis
  proof (cases "Validate req")
    case (Some e)
    with assms ClusterConf show ?thesis by (simp add: NewCluster_def)
  next
    case None
    show ?thesis
    proof (cases factory)
      case no: None
      with assms ClusterConf None show ?thesis by (simp add: NewCluster_def)
    next
      case (Some f)
      let ?c0 = "\<lparr>Name = conf_Name req, Type = ClusterTypeUnknown, Endpoints = [],
          Domains = [], Resolver = resolver, logger = Some f,
          log = Some (NewLogger f (''stunner-cluster-'' @ conf_Name req))\<rparr>"
      from assms ClusterConf None Some obtain c1 cs1 err1
        where run: "Reconcile N ?c0 conf = Some (c1, cs1, err1)"
        by (cases "Reconcile N ?c0 conf") (auto simp: NewCluster_def)
      have "err1 \<noteq> Some ErrRestartRequired"
        using run by (auto simp: Reconcile_eq split: Config.splits option.splits if_splits)
      with assms ClusterConf None Some run
      have "c1 = c" "cs1 = cs" "err1 = None" "err = None"
        by (auto simp: NewCluster_def split: if_splits)
      with run ClusterConf None show ?thesis
        using that by simp
    qed
  qed
qed

lemma reachable_invariant:
  assumes "reachable N c cs"
  shows "distinct (Domains c) \<and> set (Domains c) = registered_after cs {} \<and>
    (Domains c \<noteq> [] \<longrightarrow> Resolver c \<noteq> None) \<and> Type c \<noteq> ClusterTypeUnknown \<and>
    log c \<noteq> None"
  using assms
proof (induction rule: reachable.induct)
  case (new conf resolver factory c cs err)
  from new obtain req f where conf: "conf = ClusterConf req" and v: "Validate req = None"
    and run: "Reconcile N \<lparr>Name = conf_Name req, Type = ClusterTypeUnknown, Endpoints = [],
        Domains = [], Resolver = resolver, logger = Some f,
        log = Some (NewLogger f (''stunner-cluster-'' @ conf_Name req))\<rparr> conf =
      Some (c, cs, None)"
    by (rule NewCluster_Some)
  have "Type c \<noteq> ClusterTypeUnknown"
    using run v unfolding conf
    by (auto simp: Reconcile_eq Validate_None_iff split: option.splits if_splits)
  then show ?case
    using Reconcile_registered [OF run, of "{}"] Reconcile_needs_resolver [OF run]
      Reconcile_Resolver [OF run]
    by simp
next
  case (reconcile c cs conf c' cs' err)
  then show ?case
    using Reconcile_registered [OF reconcile(2), of "registered_after cs {}"]
      Reconcile_needs_resolver [OF reconcile(2)] Reconcile_Type [OF reconcile(2)]
      Reconcile_Resolver [OF reconcile(2)]
    by (simp add: registered_after_append)
qed

lemmas run_defs =
  NewCluster_def Reconcile_def Validate_def NewClusterType_simps Diff_def Remove_def

lemma NewCluster_ab_conf:
  "NewCluster net4 (ClusterConf ab_conf) (Some example_resolver) (Some LoggerFactory) =
     Some (Some dns_cluster, [RegisterCall ''a.com'' None, RegisterCall ''b.com'' None], None)"
  by (simp add: run_defs NewLogger_def ab_conf_def dns_cluster_def example_resolver_def)

lemma reachable_dns_cluster:
  "reachable net4 dns_cluster [RegisterCall ''a.com'' None, RegisterCall ''b.com'' None]"
  using NewCluster_ab_conf by (rule reachable.new)

lemma Reconcile_dns_to_static:
  "Reconcile net4 dns_cluster (ClusterConf static_conf) =
     Some (dns_cluster\<lparr>Type := ClusterTypeStatic,
        Endpoints := [([10, 0, 0, 0], 24), ([192, 168, 1, 1], 32)]\<rparr>, [], None)"
proof -
  have "log dns_cluster \<noteq> None"
    by (simp add: dns_cluster_def)
  then show ?thesis
    by (simp add: Reconcile_static_eq static_conf_def parse_chain_net4_examples)
qed

lemma Close_eq:
  "Close c =
     (if log c = None then None
      else if Type c = ClusterTypeStrictDNS \<and> Domains c \<noteq> [] \<and> Resolver c = None then None
      else Some (if Type c = ClusterTypeStrictDNS then map UnregisterCall (Domains c) else [],
             None))"
  by (cases "log c"; cases "Type c"; cases "Domains c"; cases "Resolver c")
    (simp_all add: Close_def)

section \<open>The registered domains\<close>

text \<open>
  Claim C7. The claim has no registration left orphaned, also across a Reconcile that changes
  the type of the Cluster away from STRICT_DNS. In the code the STATIC case of Reconcile
  neither unregisters the domains nor writes \<^verbatim>\<open>Domains\<close>, and \<^verbatim>\<open>Close\<close> on the Cluster,
  STATIC by then, calls nothing: a Cluster built for a.com and b.com, then reconciled to a
  STATIC configuration and closed, has made no Unregister call, and both domains are still
  registered with the resolver.
\<close>

theorem Reconcile_type_change_leak:
  "NewCluster net4 (ClusterConf ab_conf) (Some example_resolver) (Some LoggerFactory) =
     Some (Some dns_cluster, [RegisterCall ''a.com'' None, RegisterCall ''b.com'' None], None) \<and>
   Reconcile net4 dns_cluster (ClusterConf static_conf) =
     Some (dns_cluster\<lparr>Type := ClusterTypeStatic,
        Endpoints := [([10, 0, 0, 0], 24), ([192, 168, 1, 1], 32)]\<rparr>, [], None) \<and>
   Close (dns_cluster\<lparr>Type := ClusterTypeStatic,
        Endpoints := [([10, 0, 0, 0], 24), ([192, 168, 1, 1], 32)]\<rparr>) = Some ([], None) \<and>
   registered_after ([RegisterCall ''a.com'' None, RegisterCall ''b.com'' None] @ [] @ []) {} =
     {''a.com'', ''b.com''}"
proof -
  have "Close (dns_cluster\<lparr>Type := ClusterTypeStatic,
        Endpoints := [([10, 0, 0, 0], 24), ([192, 168, 1, 1], 32)]\<rparr>) = Some ([], None)"
    by (simp add: Close_def dns_cluster_def)
  moreover have "registered_after
      ([RegisterCall ''a.com'' None, RegisterCall ''b.com'' None] @ [] @ []) {} =
     {''a.com'', ''b.com''}"
    by auto
  ultimately show ?thesis
    using NewCluster_ab_conf Reconcile_dns_to_static by blast
qed

section \<open>Close\<close>

text \<open>
  Claim C6. On every Cluster built by \<^verbatim>\<open>NewCluster\<close> and changed by \<^verbatim>\<open>Reconcile\<close>,
  \<^verbatim>\<open>Close\<close> returns nil. On a STATIC cluster it makes no call. On a STRICT_DNS cluster it
  calls Unregister on the domains of \<^verbatim>\<open>Domains\<close>: exactly once on every domain that the
  Cluster has registered, and on no other, after which none is registered. \<^verbatim>\<open>Close\<close> does not
  write the Cluster, so a second \<^verbatim>\<open>Close\<close> returns nil as well and repeats the same calls,
  which leave the resolver as the first \<^verbatim>\<open>Close\<close> left it.
\<close>

theorem Close_unregisters:
  assumes "reachable N c cs"
  shows "\<exists>cs'. Close c = Some (cs', None) \<and>
    (Type c = ClusterTypeStatic \<longrightarrow> cs' = []) \<and>
    (Type c = ClusterTypeStrictDNS \<longrightarrow>
       cs' = map UnregisterCall (Domains c) \<and>
       count_list cs' (UnregisterCall d) = (if d \<in> registered_after cs {} then 1 else 0) \<and>
       registered_after (cs @ cs') {} = {}) \<and>
    registered_after (cs @ cs' @ cs') {} = registered_after (cs @ cs') {}"
proof -
  note inv = reachable_invariant [OF assms]
  let ?cs' = "if Type c = ClusterTypeStrictDNS then map UnregisterCall (Domains c) else []"
  have cl: "Close c = Some (?cs', None)"
    using inv by (auto simp: Close_eq)
  have cnt: "count_list (map UnregisterCall (Domains c)) (UnregisterCall d) =
      (if d \<in> registered_after cs {} then 1 else 0)"
    using inv by (simp add: count_list_UnregisterCall count_list_distinct)
  have gone: "registered_after (cs @ map UnregisterCall (Domains c)) {} = {}"
    using inv by (simp add: registered_after_append registered_after_unregister)
  have twice: "registered_after (cs @ ?cs' @ ?cs') {} = registered_after (cs @ ?cs') {}"
    by (auto simp: registered_after_append registered_after_unregister)
  show ?thesis
    using cl cnt gone twice by (intro exI [of _ ?cs']) simp
qed

theorem Close_unregisters_witness:
  "reachable net4 dns_cluster [RegisterCall ''a.com'' None, RegisterCall ''b.com'' None] \<and>
   Type dns_cluster = ClusterTypeStrictDNS \<and>
   Close dns_cluster = Some ([UnregisterCall ''a.com'', UnregisterCall ''b.com''], None) \<and>
   count_list [UnregisterCall ''a.com'', UnregisterCall ''b.com''] (UnregisterCall ''a.com'') = 1 \<and>
   registered_after ([RegisterCall ''a.com'' None, RegisterCall ''b.com'' None] @
       [UnregisterCall ''a.com'', UnregisterCall ''b.com'']) {} = {}"
proof -
  have t: "Type dns_cluster = ClusterTypeStrictDNS"
    and d: "map UnregisterCall (Domains dns_cluster) =
      [UnregisterCall ''a.com'', UnregisterCall ''b.com'']"
    by (simp_all add: dns_cluster_def)
  from Close_unregisters [OF reachable_dns_cluster, of "''a.com''"] t d
  have "Close dns_cluster = Some ([UnregisterCall ''a.com'', UnregisterCall ''b.com''], None) \<and>
      registered_after ([RegisterCall ''a.com'' None, RegisterCall ''b.com'' None] @
        [UnregisterCall ''a.com'', UnregisterCall ''b.com'']) {} = {}"
    by auto
  then show ?thesis
    using reachable_dns_cluster t by simp
qed

section \<open>GetConfig\<close>

lemma GetConfig_Endpoints:
  "conf_Endpoints (GetConfig N c) =
     (case Type c of
        ClusterTypeStatic \<Rightarrow> map (IPNet_String N) (Endpoints c)
      | ClusterTypeStrictDNS \<Rightarrow> Domains c
      | ClusterTypeUnknown \<Rightarrow> [])"
  by (cases "Type c") (simp_all add: GetConfig_def StringSlice_def)

lemma set_map_filter_canonical:
  assumes "\<forall>e\<in>set es. \<exists>n. ParseCIDR N e = Some n \<and> IPNet_String N n = e"
  shows "IPNet_String N ` {n. \<exists>e\<in>set es. parse_chain N e = Some n} = set es"
proof -
  have "parse_chain N e = ParseCIDR N e" if "e \<in> set es" for e
    using assms that by (auto simp: parse_chain_def)
  with assms show ?thesis
    by (auto simp: image_iff) force
qed

text \<open>
  Claim C5, as amended. For a STATIC cluster, \<^verbatim>\<open>GetConfig().Endpoints\<close> is set-equal to the
  string forms of the subnets in \<^verbatim>\<open>Endpoints\<close>; when the cluster was built from the literals
  \<open>E\<close>, these are the string forms of the subnets that the parse chain yields on \<open>E\<close>, and the
  result is set-equal to \<open>E\<close> when every literal of \<open>E\<close> parses as a CIDR subnet whose string
  form is the literal itself. For a STRICT_DNS cluster in a reachable state,
  \<^verbatim>\<open>GetConfig().Endpoints\<close> holds exactly the registered domains, each once.
\<close>

theorem GetConfig_roundtrip:
  "(Type c = ClusterTypeStatic \<longrightarrow>
      set (conf_Endpoints (GetConfig N c)) = IPNet_String N ` set (Endpoints c)) \<and>
   (NewCluster N (ClusterConf req) resolver factory = Some (Some c, cs, err) \<and>
    conf_Type req = ''STATIC'' \<longrightarrow>
      set (conf_Endpoints (GetConfig N c)) =
        IPNet_String N ` {n. \<exists>e\<in>set (conf_Endpoints req). parse_chain N e = Some n} \<and>
      ((\<forall>e\<in>set (conf_Endpoints req). \<exists>n. ParseCIDR N e = Some n \<and> IPNet_String N n = e) \<longrightarrow>
         set (conf_Endpoints (GetConfig N c)) = set (conf_Endpoints req))) \<and>
   (reachable N c cs \<and> Type c = ClusterTypeStrictDNS \<longrightarrow>
      mset (conf_Endpoints (GetConfig N c)) = mset (Domains c) \<and>
      distinct (conf_Endpoints (GetConfig N c)) \<and>
      set (conf_Endpoints (GetConfig N c)) = registered_after cs {})"
proof -
  have built: "set (conf_Endpoints (GetConfig N c)) =
      IPNet_String N ` {n. \<exists>e\<in>set (conf_Endpoints req). parse_chain N e = Some n}"
    if new: "NewCluster N (ClusterConf req) resolver factory = Some (Some c, cs, err)"
      and t: "conf_Type req = ''STATIC''"
  proof -
    from new obtain req' f where "ClusterConf req = ClusterConf req'"
      and v: "Validate req' = None"
      and run: "Reconcile N \<lparr>Name = conf_Name req', Type = ClusterTypeUnknown, Endpoints = [],
        Domains = [], Resolver = resolver, logger = Some f,
        log = Some (NewLogger f (''stunner-cluster-'' @ conf_Name req'))\<rparr> (ClusterConf req) =
        Some (c, cs, None)"
      by (rule NewCluster_Some)
    then have "conf_Name req \<noteq> []"
      by (simp add: Validate_None_iff)
    with run t have "Type c = ClusterTypeStatic"
      and "Endpoints c = List.map_filter (parse_chain N) (conf_Endpoints req)"
      by (auto simp: Reconcile_static_eq)
    then show ?thesis
      by (simp add: GetConfig_Endpoints set_map_filter)
  qed
  have canon: "set (conf_Endpoints (GetConfig N c)) = set (conf_Endpoints req)"
    if "NewCluster N (ClusterConf req) resolver factory = Some (Some c, cs, err)"
      and "conf_Type req = ''STATIC''"
      and "\<forall>e\<in>set (conf_Endpoints req). \<exists>n. ParseCIDR N e = Some n \<and> IPNet_String N n = e"
    using built [OF that(1,2)] set_map_filter_canonical [OF that(3)] by simp
  have dns: "mset (conf_Endpoints (GetConfig N c)) = mset (Domains c) \<and>
      distinct (conf_Endpoints (GetConfig N c)) \<and>
      set (conf_Endpoints (GetConfig N c)) = registered_after cs {}"
    if "reachable N c cs" "Type c = ClusterTypeStrictDNS"
    using reachable_invariant [OF that(1)] that(2) by (simp add: GetConfig_Endpoints)
  have static: "set (conf_Endpoints (GetConfig N c)) = IPNet_String N ` set (Endpoints c)"
    if "Type c = ClusterTypeStatic"
    using that by (simp add: GetConfig_Endpoints)
  show ?thesis
    using built canon dns static by blast
qed

lemma NewCluster_static_conf:
  "NewCluster net4 (ClusterConf static_conf) None (Some LoggerFactory) =
     Some (Some static_cluster, [], None)"
  by (simp add: run_defs NewLogger_def static_conf_def static_cluster_def net4_defs)

theorem GetConfig_roundtrip_witness:
  "Type static_cluster = ClusterTypeStatic \<and>
   NewCluster net4 (ClusterConf static_conf) None (Some LoggerFactory) =
     Some (Some static_cluster, [], None) \<and>
   conf_Type static_conf = ''STATIC'' \<and>
   set (conf_Endpoints (GetConfig net4 static_cluster)) = {''10.0.0.0/24'', ''192.168.1.1/32''} \<and>
   reachable net4 dns_cluster [RegisterCall ''a.com'' None, RegisterCall ''b.com'' None] \<and>
   Type dns_cluster = ClusterTypeStrictDNS \<and>
   set (conf_Endpoints (GetConfig net4 dns_cluster)) = {''a.com'', ''b.com''}"
proof -
  have ts: "Type static_cluster = ClusterTypeStatic"
    and td: "Type dns_cluster = ClusterTypeStrictDNS"
    and tc: "conf_Type static_conf = ''STATIC''"
    by (simp_all add: static_cluster_def dns_cluster_def static_conf_def)
  have "set (conf_Endpoints (GetConfig net4 static_cluster)) =
      IPNet_String net4 ` set (Endpoints static_cluster)"
    using mp [OF GetConfig_roundtrip [of static_cluster net4, THEN conjunct1] ts] .
  moreover have "IPNet_String net4 ` set (Endpoints static_cluster) =
      {''10.0.0.0/24'', ''192.168.1.1/32''}"
    by (simp add: static_cluster_def net4_def ipnet4_string_def)
  ultimately have 1: "set (conf_Endpoints (GetConfig net4 static_cluster)) =
      {''10.0.0.0/24'', ''192.168.1.1/32''}"
    by (simp only:)
  have "set (conf_Endpoints (GetConfig net4 dns_cluster)) =
      registered_after [RegisterCall ''a.com'' None, RegisterCall ''b.com'' None] {}"
    using mp [OF GetConfig_roundtrip [of dns_cluster net4 static_conf None None
          "[RegisterCall ''a.com'' None, RegisterCall ''b.com'' None]" None,
          THEN conjunct2, THEN conjunct2] conjI [OF reachable_dns_cluster td]]
    by (elim conjE)
  then have 2: "set (conf_Endpoints (GetConfig net4 dns_cluster)) = {''a.com'', ''b.com''}"
    by (simp add: insert_commute)
  show ?thesis
    by (intro conjI ts td tc 1 2 NewCluster_static_conf reachable_dns_cluster)
qed

text \<open>
  The claim as stated fails for a STATIC cluster built from a bare address and a malformed
  literal: \<^verbatim>\<open>GetConfig\<close> returns the host subnet of the address and nothing for the
  malformed literal, which is not set-equal to the list the cluster was built from.
\<close>

theorem GetConfig_roundtrip_counterexample:
  "NewCluster net4 (ClusterConf static_conf) None (Some LoggerFactory) =
     Some (Some static_cluster, [], None) \<and>
   conf_Endpoints static_conf = [''10.0.0.0/24'', ''not-an-address'', ''192.168.1.1''] \<and>
   conf_Endpoints (GetConfig net4 static_cluster) = [''10.0.0.0/24'', ''192.168.1.1/32''] \<and>
   set (conf_Endpoints (GetConfig net4 static_cluster)) \<noteq> set (conf_Endpoints static_conf)"
proof -
  have 1: "conf_Endpoints (GetConfig net4 static_cluster) =
      [''10.0.0.0/24'', ''192.168.1.1/32'']"
    by (simp add: GetConfig_def static_cluster_def net4_def ipnet4_string_def)
  have 2: "conf_Endpoints static_conf = [''10.0.0.0/24'', ''not-an-address'', ''192.168.1.1'']"
    by (simp add: static_conf_def)
  have out: "''192.168.1.1'' \<notin> set (conf_Endpoints (GetConfig net4 static_cluster))"
    unfolding 1 by simp
  have "''192.168.1.1'' \<in> set (conf_Endpoints static_conf)"
    unfolding 2 by simp
  with out have 3: "set (conf_Endpoints (GetConfig net4 static_cluster)) \<noteq>
      set (conf_Endpoints static_conf)"
    by blast
  show ?thesis
    by (intro conjI NewCluster_static_conf 1 2 3)
qed

text \<open>
  The order of \<^verbatim>\<open>GetConfig().Endpoints\<close> for STRICT_DNS is the order of \<^verbatim>\<open>Domains\<close>. The
  code converts the copy with \<^verbatim>\<open>sort.StringSlice(conf.Endpoints)\<close>, which does not sort: a
  Cluster built for b.com and then reconciled to a.com and b.com reports b.com before a.com.
\<close>

lemma GetConfig_strict_dns_order:
  "NewCluster net4 (ClusterConf b_conf) (Some example_resolver) (Some LoggerFactory) =
     Some (Some (ba_cluster\<lparr>Domains := [''b.com'']\<rparr>), [RegisterCall ''b.com'' None], None) \<and>
   Reconcile net4 (ba_cluster\<lparr>Domains := [''b.com'']\<rparr>) (ClusterConf ab_conf) =
     Some (ba_cluster, [RegisterCall ''a.com'' None], None) \<and>
   conf_Endpoints (GetConfig net4 ba_cluster) = [''b.com'', ''a.com''] \<and>
   \<not> sorted [''b.com'', ''a.com'']"
proof -
  have "\<not> ''b.com'' \<le> ''a.com''"
    by (simp add: list_le_def list_less_def)
  then have "\<not> sorted [''b.com'', ''a.com'']"
    by simp
  moreover have "conf_Endpoints (GetConfig net4 ba_cluster) = [''b.com'', ''a.com'']"
    by (simp add: GetConfig_def StringSlice_def ba_cluster_def)
  moreover have "NewCluster net4 (ClusterConf b_conf) (Some example_resolver)
      (Some LoggerFactory) =
     Some (Some (ba_cluster\<lparr>Domains := [''b.com'']\<rparr>), [RegisterCall ''b.com'' None], None)"
    by (simp add: run_defs NewLogger_def b_conf_def ba_cluster_def example_resolver_def)
  moreover have "Reconcile net4 (ba_cluster\<lparr>Domains := [''b.com'']\<rparr>) (ClusterConf ab_conf) =
     Some (ba_cluster, [RegisterCall ''a.com'' None], None)"
    by (simp add: run_defs ab_conf_def ba_cluster_def example_resolver_def)
  ultimately show ?thesis
    by (intro conjI)
qed

end
